theory Spec2Isabelle
  imports Main "HOL-Library.Word"
begin

section \<open>JavaScript strings\<close>

text \<open>
  A JavaScript string is a sequence of 16-bit UTF-16 code units; \<^verbatim>\<open>indexOf\<close>, a regular
  expression without the \<^verbatim>\<open>u\<close> flag and \<^verbatim>\<open>replace\<close> all work on code units. The
  literals of \<^verbatim>\<open>src/lib/enum/promptElementType.ts\<close> are ASCII but for two names of one
  code unit each, so an ASCII literal is written \<open>js ''...''\<close> and the other code units are
  written as numbers.
\<close>

type_synonym code_unit = "16 word"

type_synonym jsstring = "code_unit list"

definition js :: "string \<Rightarrow> jsstring" where
  "js s = map of_char s"

text \<open>The backspace control character, \<^verbatim>\<open>'\b'\<close> and \<^verbatim>\<open>\x08\<close> in the source.\<close>

definition BS :: code_unit where
  "BS = 0x08"

text \<open>
  The line terminators of ECMAScript: LF, CR, LINE SEPARATOR and PARAGRAPH SEPARATOR. In a
  regular expression without the \<^verbatim>\<open>s\<close> flag the atom \<^verbatim>\<open>.\<close> matches every code unit
  but these four.
\<close>

definition isLineTerminator :: "code_unit \<Rightarrow> bool" where
  "isLineTerminator c = (c = 0x0A \<or> c = 0x0D \<or> c = 0x2028 \<or> c = 0x2029)"

text \<open>
  \<^verbatim>\<open>str.indexOf(c)\<close> for a search string of one code unit: the index of its first
  occurrence, or \<open>-1\<close>.
\<close>

fun indexOf_from :: "jsstring \<Rightarrow> code_unit \<Rightarrow> int \<Rightarrow> int" where
  "indexOf_from [] c i = - 1"
| "indexOf_from (x # xs) c i = (if x = c then i else indexOf_from xs c (i + 1))"

definition indexOf :: "jsstring \<Rightarrow> code_unit \<Rightarrow> int" where
  "indexOf str c = indexOf_from str c 0"

section \<open>RemoveBackspaces\<close>

text \<open>
  \<^verbatim>\<open>
  export function RemoveBackspaces(str: string)
  {
    while (str.indexOf('\b') !== -1)
    {
      str = str.replace(/.?\x08/, ''); // 0x08 is the ASCII code for \b
    }
    return str;
  }
  \<close>
  \<open>match_here\<close> is the regular expression \<^verbatim>\<open>/.?\x08/\<close> tried at the start of a string:
  the length of its match there, if it has one. The quantifier \<^verbatim>\<open>?\<close> is greedy, so the
  matcher first lets \<^verbatim>\<open>.\<close> take one code unit (any but a line terminator) and needs a
  backspace after it; failing that, it backtracks to the empty alternative and needs the
  backspace at once.
\<close>

fun match_here :: "jsstring \<Rightarrow> nat option" where
  "match_here [] = None"
| "match_here [c] = (if c = BS then Some 1 else None)"
| "match_here (c # d # rest) =
     (if \<not> isLineTerminator c \<and> d = BS then Some 2
      else if c = BS then Some 1
      else None)"

text \<open>
  \<^verbatim>\<open>str.replace(/.?\x08/, '')\<close>: the expression has no \<^verbatim>\<open>g\<close> flag, so only the leftmost
  match is replaced (by the empty string); a string with no match is returned as it is.
\<close>

fun replace_first :: "jsstring \<Rightarrow> jsstring" where
  "replace_first [] = []"
| "replace_first (c # cs) =
     (case match_here (c # cs) of
        Some n \<Rightarrow> drop n (c # cs)
      | None \<Rightarrow> c # replace_first cs)"

text \<open>The \<^verbatim>\<open>while\<close> loop. A run that never leaves the loop is the value \<open>None\<close>.\<close>

partial_function (option) RemoveBackspaces :: "jsstring \<Rightarrow> jsstring option" where
  "RemoveBackspaces str =
     (if indexOf str BS \<noteq> - 1 then RemoveBackspaces (replace_first str) else Some str)"

declare RemoveBackspaces.simps [code]

subsection \<open>Backspace stripping as the specification words it\<close>

text \<open>
  The specification: ``repeatedly find the first occurrence of the pattern "any single
  character (or none) immediately followed by one backspace control character" and delete
  that matched span, until no backspace control character remains''. The definitions below
  follow these words, with the characters that count as ``any single character'' as the
  parameter \<open>any\<close>.
\<close>

fun delete_first_span :: "(code_unit \<Rightarrow> bool) \<Rightarrow> jsstring \<Rightarrow> jsstring" where
  "delete_first_span any [] = []"
| "delete_first_span any [c] = (if c = BS then [] else [c])"
| "delete_first_span any (c # d # rest) =
     (if any c \<and> d = BS then rest
      else if c = BS then d # rest
      else c # delete_first_span any (d # rest))"

lemma delete_first_span_shorter:
  "BS \<in> set s \<Longrightarrow> length (delete_first_span any s) < length s"
  by (induction any s rule: delete_first_span.induct) auto

definition any_character :: "code_unit \<Rightarrow> bool" where
  "any_character c = True"

definition any_but_line_terminator :: "code_unit \<Rightarrow> bool" where
  "any_but_line_terminator c = (\<not> isLineTerminator c)"

function stripBackspaces_spec :: "(code_unit \<Rightarrow> bool) \<Rightarrow> jsstring \<Rightarrow> jsstring" where
  "stripBackspaces_spec any s =
     (if BS \<in> set s then stripBackspaces_spec any (delete_first_span any s) else s)"
  by pat_completeness auto
termination
  by (relation "measure (\<lambda>(any, s). length s)") (auto simp: delete_first_span_shorter)

declare stripBackspaces_spec.simps [simp del]

section \<open>The element types\<close>

text \<open>
  \<^verbatim>\<open>type Parameter = { id: string; label: string }\<close>. The field \<^verbatim>\<open>id\<close> is written
  \<open>id'\<close>, as \<open>id\<close> is the identity function of HOL.
\<close>

record Parameter =
  id' :: jsstring
  label :: jsstring

text \<open>
  The argument of a generator, \<^verbatim>\<open>Record<string, string>\<close>: reading a key that the object
  does not hold gives \<^verbatim>\<open>undefined\<close>, here \<open>None\<close>.
\<close>

type_synonym args = "jsstring \<rightharpoonup> jsstring"

text \<open>The operator \<^verbatim>\<open>a ?? b\<close> on a value that is a string or \<^verbatim>\<open>undefined\<close>.\<close>

definition nullish :: "'a option \<Rightarrow> 'a \<Rightarrow> 'a" where
  "nullish a b = (case a of None \<Rightarrow> b | Some v \<Rightarrow> v)"

text \<open>
  What a generator reads besides its argument. Four preview generators call
  \<^verbatim>\<open>timeFormat(spec)(new Date())\<close>: \<^verbatim>\<open>new Date()\<close> reads the clock (the time value, in
  milliseconds since the epoch), and \<^verbatim>\<open>timeFormat\<close> is the formatter of the library
  d3-time-format, which is no part of this repository and is taken as a parameter, with
  the locale and the time zone it formats in.
\<close>

record env =
  timeFormat :: "jsstring \<Rightarrow> int \<Rightarrow> jsstring"
  new_Date :: int

text \<open>
  \<^verbatim>\<open>type ParameterizedString = (args: Record<string, string>) => string\<close>, run in an
  environment. The result is \<open>None\<close> when the call does not return.
\<close>

type_synonym ParameterizedString = "env \<Rightarrow> args \<Rightarrow> jsstring option"

record PromptElementType =
  name :: jsstring
  char :: ParameterizedString
  parameters :: "Parameter list"
  printable :: bool
  description :: jsstring
  preview :: ParameterizedString

text \<open>
  The constructor: \<^verbatim>\<open>char\<close> and \<^verbatim>\<open>preview\<close> are given as a constant string or as a
  function, and
  \<^verbatim>\<open>this.char = typeof char === 'string' ? () => char : char\<close> (likewise for the preview).
\<close>

definition new_PromptElementType ::
  "jsstring \<Rightarrow> jsstring + ParameterizedString \<Rightarrow> Parameter list \<Rightarrow> bool \<Rightarrow> jsstring \<Rightarrow>
   jsstring + ParameterizedString \<Rightarrow> PromptElementType" where
  "new_PromptElementType name0 char0 parameters0 printable0 description0 preview0 =
     \<lparr>name = name0,
      char = (case char0 of Inl s \<Rightarrow> (\<lambda>e args. Some s) | Inr f \<Rightarrow> f),
      parameters = parameters0,
      printable = printable0,
      description = description0,
      preview = (case preview0 of Inl s \<Rightarrow> (\<lambda>e args. Some s) | Inr f \<Rightarrow> f)\<rparr>"

text \<open>
  The character class of \<^verbatim>\<open>/([$`\\!])/g\<close>: dollar sign, backquote, backslash and
  exclamation mark.
\<close>

definition isSpecial :: "code_unit \<Rightarrow> bool" where
  "isSpecial c = (c = 0x24 \<or> c = 0x60 \<or> c = 0x5C \<or> c = 0x21)"

text \<open>
  \<^verbatim>\<open>str.replace(/([$`\\!])/g, '\\$1')\<close>: with the \<^verbatim>\<open>g\<close> flag every match, from left to
  right, is replaced; a match is one code unit of the class, and the replacement is a
  backslash followed by \<^verbatim>\<open>$1\<close>, the code unit matched.
\<close>

fun replace_all_special :: "jsstring \<Rightarrow> jsstring" where
  "replace_all_special [] = []"
| "replace_all_special (c # cs) =
     (if isSpecial c then 0x5C # c # replace_all_special cs else c # replace_all_special cs)"

text \<open>
  The catalog, in the order of the source (the entries that the source comments out are
  left out). A template literal is a concatenation.
\<close>

definition PROMPT_ELEMENT_TYPES :: "PromptElementType list" where
  "PROMPT_ELEMENT_TYPES =
    [new_PromptElementType (js ''Current Date'') (Inl (js ''$d'')) [] True
       (js ''The date, in your local format (as displayed in taskbar).'')
       (Inr (\<lambda>e args. Some (timeFormat e (js ''%x'') (new_Date e)))),
     new_PromptElementType (js ''Time with 100th-seconds'') (Inl (js ''$t'')) [] True
       (js ''The time, in 24-hour format HH:MM:SS.ss with 100-th second precision ('' @ [0x60] @
        js ''echo %time%'' @ [0x60] @ js '').'')
       (Inr (\<lambda>e args. RemoveBackspaces (timeFormat e (js ''%_H:%M:%S.%L'') (new_Date e) @ [0x08]))),
     new_PromptElementType (js ''Time'') (Inl (js ''$t$h$h$h'')) [] True
       (js ''The time, in 24-hour HH:MM:SS format.'')
       (Inr (\<lambda>e args. Some (timeFormat e (js ''%_H:%M:%S'') (new_Date e)))),
     new_PromptElementType (js ''Time (w/o seconds)'') (Inl (js ''$t$h$h$h$h$h$h'')) [] True
       (js ''The time, in 24-hour HH:MM format.'')
       (Inr (\<lambda>e args. Some (timeFormat e (js ''%_H:%M'') (new_Date e)))),
     new_PromptElementType (js ''Username'') (Inl (js ''%username%'')) [] True
       (js ''The username of the current user.'')
       (Inl (js ''username'')),
     new_PromptElementType (js ''Hostname'') (Inl (js ''%computername%'')) [] True
       (js ''The hostname.'')
       (Inl (js ''host-pc-name'')),
     new_PromptElementType (js ''Remote Drive Name'') (Inl (js ''$m'')) [] True
       (js ''Remote name associated with the current drive letter or empty string if current drive is not a network drive.'')
       (Inl (js ''remote-drive-name'')),
     new_PromptElementType (js ''Current Drive and Path'') (Inl (js ''$p'')) [] True
       (js ''The current drive and path.'')
       (Inl (js ''X:'' @ [0x5C] @ js ''Big Folder'' @ [0x5C] @ js ''current_folder'')),
     new_PromptElementType (js ''Current Drive'') (Inl (js ''$n'')) [] True
       (js ''The current drive letter.'')
       (Inl (js ''X'')),
     new_PromptElementType (js ''Newline'') (Inl (js ''$_'')) [] False
       (js ''A newline.'')
       (Inl [0x0A]),
     new_PromptElementType (js ''Error Level'') (Inl (js ''%errorlevel%'')) [] True
       (js ''Error level of the last run command.'')
       (Inl (js ''0'')),
     new_PromptElementType (js ''Windows Version'') (Inl (js ''$v'')) [] True
       (js ''Windows version number with build.'')
       (Inl (js ''Microsoft Windows [Version 10.0.19045.3208]'')),
     new_PromptElementType (js ''Environment Variable'')
       (Inr (\<lambda>e args. Some (js ''%'' @ nullish (args (js ''command'')) [] @ js ''%'')))
       [\<lparr>id' = js ''envvar'', label = js ''Env Var Name''\<rparr>] True
       (js ''A custom environment variable.'')
       (Inl (js ''example output'')),
     new_PromptElementType [0x23B5] (Inl (js ''$s'')) [] False
       (js ''Space.'')
       (Inl (js '' '')),
     new_PromptElementType (js ''~'') (Inl (js ''~'')) [] True
       (js ''Tilde.'')
       (Inl (js ''~'')),
     new_PromptElementType (js ''!'') (Inl (js ''!'')) [] True
       (js ''Exclamation mark.'')
       (Inl (js ''!'')),
     new_PromptElementType (js ''?'') (Inl (js ''?'')) [] True
       (js ''Question mark.'')
       (Inl (js ''?'')),
     new_PromptElementType (js ''@'') (Inl (js ''@'')) [] True
       (js ''Ampersat.'')
       (Inl (js ''@'')),
     new_PromptElementType (js ''#'') (Inl (js ''#'')) [] True
       (js ''Hash.'')
       (Inl (js ''#'')),
     new_PromptElementType (js ''$'') (Inl (js ''$$'')) [] True
       (js ''Dollar sign.'')
       (Inl (js ''$'')),
     new_PromptElementType (js ''%'') (Inl (js ''%'')) [] True
       (js ''Percent.'')
       (Inl (js ''%'')),
     new_PromptElementType (js ''^'') (Inl (js ''^'')) [] True
       (js ''Caret.'')
       (Inl (js ''^'')),
     new_PromptElementType (js ''&'') (Inl (js ''$a'')) [] True
       (js ''Ampersand.'')
       (Inl (js ''&'')),
     new_PromptElementType (js ''*'') (Inl (js ''*'')) [] True
       (js ''Asterisk.'')
       (Inl (js ''*'')),
     new_PromptElementType (js ''('') (Inl (js ''$c'')) [] True
       (js ''Open parenthesis.'')
       (Inl (js ''('')),
     new_PromptElementType (js '')'') (Inl (js ''$f'')) [] True
       (js ''Close parenthesis.'')
       (Inl (js '')'')),
     new_PromptElementType (js ''{'') (Inl (js ''{'')) [] True
       (js ''Open curly bracket.'')
       (Inl (js ''{'')),
     new_PromptElementType (js ''}'') (Inl (js ''}'')) [] True
       (js ''Close curly bracket.'')
       (Inl (js ''}'')),
     new_PromptElementType (js ''['') (Inl (js ''['')) [] True
       (js ''Open bracket.'')
       (Inl (js ''['')),
     new_PromptElementType (js '']'') (Inl (js '']'')) [] True
       (js ''Close bracket.'')
       (Inl (js '']'')),
     new_PromptElementType (js ''-'') (Inl (js ''-'')) [] True
       (js ''Hyphen.'')
       (Inl (js ''-'')),
     new_PromptElementType (js ''_'') (Inl (js ''_'')) [] True
       (js ''Underscore.'')
       (Inl (js ''_'')),
     new_PromptElementType (js ''+'') (Inl (js ''+'')) [] True
       (js ''Plus.'')
       (Inl (js ''+'')),
     new_PromptElementType (js ''='') (Inl (js ''$q'')) [] True
       (js ''Equal.'')
       (Inl (js ''='')),
     new_PromptElementType (js ''/'') (Inl (js ''/'')) [] True
       (js ''Forward slash.'')
       (Inl (js ''/'')),
     new_PromptElementType [0x5C] (Inl [0x5C, 0x5C]) [] True
       (js ''Backslash.'')
       (Inl [0x5C]),
     new_PromptElementType (js ''|'') (Inl (js ''$b'')) [] True
       (js ''Pipe.'')
       (Inl (js ''|'')),
     new_PromptElementType (js '','') (Inl (js '','')) [] True
       (js ''Comma.'')
       (Inl (js '','')),
     new_PromptElementType (js ''.'') (Inl (js ''.'')) [] True
       (js ''Period.'')
       (Inl (js ''.'')),
     new_PromptElementType (js '':'') (Inl (js '':'')) [] True
       (js ''Colon.'')
       (Inl (js '':'')),
     new_PromptElementType (js '';'') (Inl (js '';'')) [] True
       (js ''Semicolon.'')
       (Inl (js '';'')),
     new_PromptElementType [0x22] (Inl [0x22]) [] True
       (js ''Quotation mark.'')
       (Inl [0x22]),
     new_PromptElementType [0x232B] (Inl (js ''$h'')) [] False
       (js ''Backspace.'')
       (Inl [0x08]),
     new_PromptElementType [0x27] (Inl [0x27]) [] True
       (js ''Single quote.'')
       (Inl [0x27]),
     new_PromptElementType (js ''<'') (Inl (js ''$l'')) [] True
       (js ''Less than.'')
       (Inl (js ''<'')),
     new_PromptElementType (js ''>'') (Inl (js ''$g'')) [] True
       (js ''Greater than.'')
       (Inl (js ''>'')),
     new_PromptElementType (js ''Text'')
       (Inr (\<lambda>e args. Some (replace_all_special (nullish (args (js ''text'')) []))))
       [\<lparr>id' = js ''text'', label = js ''Text''\<rparr>] True
       (js ''A custom text.'')
       (Inr (\<lambda>e args. Some (nullish (args (js ''text'')) [])))]"

text \<open>
  Shell text escaping as the specification words it: ``prepend a backslash to every
  occurrence of the four characters'' dollar sign, backquote, backslash and exclamation
  mark, ``leaving all other characters unchanged''.
\<close>

definition escapeText_spec :: "jsstring \<Rightarrow> jsstring" where
  "escapeText_spec v =
     concat (map (\<lambda>c. if c \<in> {0x24, 0x60, 0x5C, 0x21} then [0x5C, c] else [c]) v)"

section \<open>Prompt elements\<close>

text \<open>
  \<^verbatim>\<open>attributes: Record<displayAttribute, boolean>\<close>, with the seven keys that the constructor
  of \<^verbatim>\<open>PromptElement\<close> writes.
\<close>

record attributes =
  bold :: bool
  dim :: bool
  italic :: bool
  underline :: bool
  blink :: bool
  reverse :: bool
  overline :: bool

text \<open>
  The class \<^verbatim>\<open>PromptElement\<close>. The type \<^verbatim>\<open>Color\<close>, imported from \<^verbatim>\<open>./enum/color\<close>, is
  the type parameter; \<^verbatim>\<open>null\<close> is \<open>None\<close>.
\<close>

record 'color PromptElement =
  type :: PromptElementType
  parameters :: args
  attributes :: attributes
  backspaces :: int
  foregroundColor :: "'color option"
  backgroundColor :: "'color option"

definition new_PromptElement :: "PromptElementType \<Rightarrow> 'color PromptElement" where
  "new_PromptElement type0 =
     \<lparr>type = type0,
      parameters = Map.empty,
      attributes =
        \<lparr>bold = False, dim = False, italic = False, underline = False, blink = False,
         reverse = False, overline = False\<rparr>,
      backspaces = 0,
      foregroundColor = None,
      backgroundColor = None\<rparr>"

text \<open>
  ``Treat absent keys as empty string'': the mapping with every absent key bound to the
  empty string.
\<close>

definition fill_absent :: "args \<Rightarrow> args" where
  "fill_absent m = (\<lambda>k. Some (nullish (m k) []))"

text \<open>The four descriptors whose preview calls \<^verbatim>\<open>new Date()\<close>.\<close>

definition date_time_names :: "jsstring set" where
  "date_time_names =
     {js ''Current Date'', js ''Time with 100th-seconds'', js ''Time'', js ''Time (w/o seconds)''}"

section \<open>An environment to run the date and time previews in\<close>

text \<open>
  A formatter in the manner of d3-time-format, for the time zone UTC: a specifier is copied
  but for its directives, a percent sign, an optional padding flag (\<^verbatim>\<open>-\<close> for none,
  \<^verbatim>\<open>_\<close> for spaces, \<^verbatim>\<open>0\<close> for zeros, the default) and a letter. The letters \<^verbatim>\<open>H\<close>,
  \<^verbatim>\<open>M\<close>, \<^verbatim>\<open>S\<close> and \<^verbatim>\<open>L\<close> stand for the hour, minute, second and millisecond of the
  time value; the other directives are not modelled (their letter is copied). It stands
  for the parameter \<open>timeFormat\<close> where a generator is run on a concrete input.
\<close>

fun digits :: "nat \<Rightarrow> jsstring" where
  "digits n = (if n < 10 then [of_nat (48 + n)] else digits (n div 10) @ [of_nat (48 + n mod 10)])"

definition pad :: "nat \<Rightarrow> jsstring \<Rightarrow> nat \<Rightarrow> jsstring" where
  "pad v fill width = concat (replicate (width - length (digits v)) fill) @ digits v"

definition pads :: "code_unit \<Rightarrow> jsstring option" where
  "pads c =
     (if c = 0x2D then Some []
      else if c = 0x5F then Some [0x20]
      else if c = 0x30 then Some [0x30]
      else None)"

definition utcDirective :: "code_unit \<Rightarrow> int \<Rightarrow> jsstring \<Rightarrow> jsstring" where
  "utcDirective c t fill =
     (if c = 0x48 then pad (nat (t div 3600000 mod 24)) fill 2
      else if c = 0x4D then pad (nat (t div 60000 mod 60)) fill 2
      else if c = 0x53 then pad (nat (t div 1000 mod 60)) fill 2
      else if c = 0x4C then pad (nat (t mod 1000)) fill 3
      else [c])"

fun utcFormat :: "jsstring \<Rightarrow> int \<Rightarrow> jsstring" where
  "utcFormat [] t = []"
| "utcFormat [c] t = (if c = 0x25 then [] else [c])"
| "utcFormat (c # d # rest) t =
     (if c = 0x25 then
        (case pads d of
           Some fill \<Rightarrow>
             (case rest of
                [] \<Rightarrow> []
              | x # rest' \<Rightarrow> utcDirective x t fill @ utcFormat rest' t)
         | None \<Rightarrow> utcDirective d t [0x30] @ utcFormat rest t)
      else c # utcFormat (d # rest) t)"

definition utcEnv :: "int \<Rightarrow> env" where
  "utcEnv t = \<lparr>timeFormat = utcFormat, new_Date = t\<rparr>"

section \<open>Lemmas\<close>

subsection \<open>The loop of RemoveBackspaces\<close>

lemma indexOf_from_found: "c \<in> set s \<Longrightarrow> i \<le> indexOf_from s c i"
proof (induction s arbitrary: i)
  case Nil
  then show ?case by simp
next
  case (Cons x xs)
  show ?case
  proof (cases "x = c")
    case True
    then show ?thesis by simp
  next
    case False
    with Cons.prems have "c \<in> set xs" by simp
    from Cons.IH [OF this, of "i + 1"] False show ?thesis by simp
  qed
qed

lemma indexOf_from_absent: "c \<notin> set s \<Longrightarrow> indexOf_from s c i = - 1"
  by (induction s arbitrary: i) auto

lemma indexOf_found_iff: "indexOf s c \<noteq> - 1 \<longleftrightarrow> c \<in> set s"
proof
  assume "indexOf s c \<noteq> - 1"
  then show "c \<in> set s"
    using indexOf_from_absent [of c s 0] by (auto simp: indexOf_def)
next
  assume "c \<in> set s"
  then have "0 \<le> indexOf s c"
    unfolding indexOf_def by (rule indexOf_from_found)
  then show "indexOf s c \<noteq> - 1" by simp
qed

lemma match_here_bound: "match_here s = Some n \<Longrightarrow> 0 < n \<and> n \<le> length s"
  by (cases s rule: match_here.cases) (auto split: if_splits)

lemma match_here_None: "BS \<notin> set s \<Longrightarrow> match_here s = None"
  by (cases s rule: match_here.cases) auto

lemma replace_first_shorter: "BS \<in> set s \<Longrightarrow> length (replace_first s) < length s"
proof (induction s)
  case Nil
  then show ?case by simp
next
  case (Cons c cs)
  show ?case
  proof (cases "match_here (c # cs)")
    case None
    then have "c \<noteq> BS"
      by (cases cs) (auto split: if_splits)
    with Cons.prems have "BS \<in> set cs" by simp
    with Cons.IH None show ?thesis by simp
  next
    case (Some n)
    with match_here_bound [OF Some] show ?thesis by simp
  qed
qed

lemma replace_first_clean: "BS \<notin> set s \<Longrightarrow> replace_first s = s"
proof (induction s)
  case Nil
  then show ?case by simp
next
  case (Cons c cs)
  then have "match_here (c # cs) = None"
    by (intro match_here_None)
  with Cons show ?case by simp
qed

lemma replace_first_count:
  "BS \<in> set s \<Longrightarrow> count_list (replace_first s) BS < count_list s BS"
proof (induction s rule: replace_first.induct)
  case 1
  then show ?case by simp
next
  case (2 c cs)
  show ?case
  proof (cases cs)
    case Nil
    with "2.prems" show ?thesis by simp
  next
    case (Cons d rest)
    show ?thesis
    proof (cases "match_here (c # cs)")
      case None
      with Cons have "c \<noteq> BS" by (auto split: if_splits)
      with "2.prems" have "BS \<in> set cs" by simp
      with "2.IH" [OF None] None \<open>c \<noteq> BS\<close> show ?thesis by simp
    next
      case (Some n)
      with Cons show ?thesis by (auto split: if_splits)
    qed
  qed
qed

lemma RemoveBackspaces_clean: "BS \<notin> set s \<Longrightarrow> RemoveBackspaces s = Some s"
  by (subst RemoveBackspaces.simps) (simp add: indexOf_found_iff)

lemma RemoveBackspaces_step:
  "BS \<in> set s \<Longrightarrow> RemoveBackspaces s = RemoveBackspaces (replace_first s)"
  by (subst RemoveBackspaces.simps) (simp add: indexOf_found_iff)

lemma RemoveBackspaces_returns_clean:
  "\<exists>r. RemoveBackspaces s = Some r \<and> BS \<notin> set r"
proof (induction s rule: length_induct)
  case (1 s)
  show ?case
  proof (cases "BS \<in> set s")
    case True
    then have "length (replace_first s) < length s"
      by (rule replace_first_shorter)
    with "1.IH" obtain r where "RemoveBackspaces (replace_first s) = Some r" "BS \<notin> set r"
      by blast
    with RemoveBackspaces_step [OF True] show ?thesis by simp
  next
    case False
    then show ?thesis by (simp add: RemoveBackspaces_clean)
  qed
qed

lemma replace_first_eq_spec:
  "replace_first s = delete_first_span any_but_line_terminator s"
proof (induction s rule: replace_first.induct)
  case 1
  show ?case by simp
next
  case (2 c cs)
  show ?case
  proof (cases cs)
    case Nil
    then show ?thesis by simp
  next
    case (Cons d rest)
    show ?thesis
    proof (cases "match_here (c # cs)")
      case None
      with "2.IH" Cons show ?thesis
        by (auto simp: any_but_line_terminator_def split: if_splits)
    next
      case (Some n)
      with Cons show ?thesis
        by (auto simp: any_but_line_terminator_def split: if_splits)
    qed
  qed
qed

lemma RemoveBackspaces_eq_spec:
  "RemoveBackspaces s = Some (stripBackspaces_spec any_but_line_terminator s)"
proof (induction any_but_line_terminator s rule: stripBackspaces_spec.induct)
  case (1 s)
  show ?case
  proof (cases "BS \<in> set s")
    case True
    with "1" RemoveBackspaces_step [OF True] show ?thesis
      by (simp add: replace_first_eq_spec stripBackspaces_spec.simps [of _ s])
  next
    case False
    then show ?thesis
      by (simp add: RemoveBackspaces_clean stripBackspaces_spec.simps [of _ s])
  qed
qed

lemma RemoveBackspaces_leading:
  "RemoveBackspaces (BS # s) = RemoveBackspaces s"
proof (induction s)
  case Nil
  show ?case
    by (subst RemoveBackspaces.simps) (simp add: indexOf_def)
next
  case (Cons d rest)
  show ?case
  proof (cases "d = BS")
    case True
    have "RemoveBackspaces (BS # BS # rest) = RemoveBackspaces rest"
      by (subst RemoveBackspaces.simps) (simp add: indexOf_def BS_def isLineTerminator_def)
    with Cons.IH True show ?thesis by simp
  next
    case False
    then show ?thesis
      by (subst RemoveBackspaces.simps) (simp add: indexOf_def)
  qed
qed

lemma RemoveBackspaces_returns: "\<exists>r. RemoveBackspaces s = Some r"
  using RemoveBackspaces_returns_clean [of s] by blast

subsection \<open>The catalog\<close>

lemma name_new: "name (new_PromptElementType n c ps pr d pv) = n"
  by (simp add: new_PromptElementType_def)

lemma printable_new: "printable (new_PromptElementType n c ps pr d pv) = pr"
  by (simp add: new_PromptElementType_def)

lemma parameters_new:
  "PromptElementType.parameters (new_PromptElementType n c ps pr d pv) = ps"
  by (simp add: new_PromptElementType_def)

lemma char_new:
  "char (new_PromptElementType n c ps pr d pv) =
     (case c of Inl s \<Rightarrow> (\<lambda>e args. Some s) | Inr f \<Rightarrow> f)"
  by (simp add: new_PromptElementType_def)

lemma preview_new:
  "preview (new_PromptElementType n c ps pr d pv) =
     (case pv of Inl s \<Rightarrow> (\<lambda>e args. Some s) | Inr f \<Rightarrow> f)"
  by (simp add: new_PromptElementType_def)

lemma replace_all_special_eq_spec: "replace_all_special v = escapeText_spec v"
  by (induction v) (auto simp: escapeText_spec_def isSpecial_def)

lemma catalog_length: "length PROMPT_ELEMENT_TYPES = 47"
  by (simp add: PROMPT_ELEMENT_TYPES_def)

lemma catalog_mem: "i < 47 \<Longrightarrow> PROMPT_ELEMENT_TYPES ! i \<in> set PROMPT_ELEMENT_TYPES"
  by (simp add: catalog_length)

lemma catalog_1:
  "name (PROMPT_ELEMENT_TYPES ! 1) = js ''Time with 100th-seconds''"
  "preview (PROMPT_ELEMENT_TYPES ! 1) e m =
     RemoveBackspaces (timeFormat e (js ''%_H:%M:%S.%L'') (new_Date e) @ [0x08])"
  by (simp_all add: PROMPT_ELEMENT_TYPES_def name_new preview_new)

lemma catalog_2:
  "name (PROMPT_ELEMENT_TYPES ! 2) = js ''Time''"
  "preview (PROMPT_ELEMENT_TYPES ! 2) e m = Some (timeFormat e (js ''%_H:%M:%S'') (new_Date e))"
  by (simp_all add: PROMPT_ELEMENT_TYPES_def name_new preview_new)

lemma catalog_3:
  "name (PROMPT_ELEMENT_TYPES ! 3) = js ''Time (w/o seconds)''"
  "preview (PROMPT_ELEMENT_TYPES ! 3) e m = Some (timeFormat e (js ''%_H:%M'') (new_Date e))"
  by (simp_all add: PROMPT_ELEMENT_TYPES_def name_new preview_new)

lemma catalog_4: "name (PROMPT_ELEMENT_TYPES ! 4) = js ''Username''"
  by (simp add: PROMPT_ELEMENT_TYPES_def name_new)

lemma catalog_9: "name (PROMPT_ELEMENT_TYPES ! 9) = js ''Newline''"
  by (simp add: PROMPT_ELEMENT_TYPES_def name_new)

lemma catalog_12: "name (PROMPT_ELEMENT_TYPES ! 12) = js ''Environment Variable''"
  by (simp add: PROMPT_ELEMENT_TYPES_def name_new)

lemma catalog_46: "name (PROMPT_ELEMENT_TYPES ! 46) = js ''Text''"
  by (simp add: PROMPT_ELEMENT_TYPES_def name_new)

section \<open>The claims\<close>

subsection \<open>Backspace stripping\<close>

text \<open>
  C1, as amended. For every input string \<open>s\<close>, \<open>RemoveBackspaces s\<close> returns the result of
  repeatedly deleting the first occurrence of the span ``any single code unit other than a
  line terminator (LF, CR, U+2028, U+2029), or none, immediately followed by one backspace''
  until no backspace remains. A backspace at the very start of the string is removed
  without anything else of the string being consumed. In particular the results for
  \<^verbatim>\<open>"\b"\<close>, \<^verbatim>\<open>"ab\bc"\<close> and \<^verbatim>\<open>"a\b\b"\<close> are \<^verbatim>\<open>""\<close>, \<^verbatim>\<open>"ac"\<close> and \<^verbatim>\<open>""\<close>.
\<close>

theorem RemoveBackspaces_deletes_spans:
  "RemoveBackspaces s = Some (stripBackspaces_spec any_but_line_terminator s) \<and>
   RemoveBackspaces (BS # s) = RemoveBackspaces s \<and>
   RemoveBackspaces [0x08] = Some [] \<and>
   RemoveBackspaces [0x61, 0x62, 0x08, 0x63] = Some [0x61, 0x63] \<and>
   RemoveBackspaces [0x61, 0x08, 0x08] = Some []"
proof -
  have "RemoveBackspaces [0x08] = Some []"
    by (simp add: RemoveBackspaces.simps indexOf_def BS_def isLineTerminator_def)
  moreover have "RemoveBackspaces [0x61, 0x62, 0x08, 0x63] = Some [0x61, 0x63]"
    by (simp add: RemoveBackspaces.simps indexOf_def BS_def isLineTerminator_def)
  moreover have "RemoveBackspaces [0x61, 0x08, 0x08] = Some []"
    by (simp add: RemoveBackspaces.simps indexOf_def BS_def isLineTerminator_def)
  ultimately show ?thesis
    by (simp add: RemoveBackspaces_eq_spec [symmetric] RemoveBackspaces_leading)
qed

text \<open>
  C1 as it is stated fails where a line terminator stands before a backspace: with ``any
  single character'' the span to delete in \<^verbatim>\<open>"\n\b"\<close> is the whole string, but the atom
  \<^verbatim>\<open>.\<close> of the regular expression does not match the line feed, and the code deletes the
  backspace alone.
\<close>

theorem RemoveBackspaces_keeps_line_terminator:
  "RemoveBackspaces [0x0A, 0x08] = Some [0x0A] \<and>
   stripBackspaces_spec any_character [0x0A, 0x08] = [] \<and>
   RemoveBackspaces [0x0A, 0x08] \<noteq> Some (stripBackspaces_spec any_character [0x0A, 0x08])"
proof -
  have a: "RemoveBackspaces [0x0A, 0x08] = Some [0x0A]"
    by (simp add: RemoveBackspaces.simps indexOf_def BS_def isLineTerminator_def)
  have b: "stripBackspaces_spec any_character [0x0A, 0x08] = []"
    by (simp add: stripBackspaces_spec.simps BS_def any_character_def)
  from a b show ?thesis by simp
qed

text \<open>
  C3. For every string \<open>s\<close>, \<open>RemoveBackspaces s\<close> returns a string in which the backspace
  occurs zero times, and running \<open>RemoveBackspaces\<close> on that result returns it unchanged:
  \<open>RemoveBackspaces\<close> after \<open>RemoveBackspaces\<close> is \<open>RemoveBackspaces\<close>.
\<close>

theorem RemoveBackspaces_idempotent:
  "(\<exists>r. RemoveBackspaces s = Some r \<and> count_list r BS = 0) \<and>
   Option.bind (RemoveBackspaces s) RemoveBackspaces = RemoveBackspaces s"
proof -
  obtain r where r: "RemoveBackspaces s = Some r" "BS \<notin> set r"
    using RemoveBackspaces_returns_clean [of s] by blast
  from r(2) have "RemoveBackspaces r = Some r"
    by (rule RemoveBackspaces_clean)
  with r show ?thesis by (simp add: count_list_0_iff)
qed

text \<open>
  C4. \<open>RemoveBackspaces\<close> returns on every input string. The loop runs as long as the
  string holds a backspace; each iteration then strictly shortens the string, and it
  removes at least one backspace. On a string with no backspace the loop is not entered,
  a replacement would leave the string as it is, and the string is returned unchanged.
\<close>

theorem RemoveBackspaces_terminates:
  "(\<exists>r. RemoveBackspaces s = Some r) \<and>
   (indexOf s BS \<noteq> - 1) = (BS \<in> set s) \<and>
   (indexOf s BS \<noteq> - 1 \<longrightarrow>
      length (replace_first s) < length s \<and>
      count_list (replace_first s) BS < count_list s BS) \<and>
   (indexOf s BS = - 1 \<longrightarrow> replace_first s = s \<and> RemoveBackspaces s = Some s)"
proof (intro conjI impI)
  show "\<exists>r. RemoveBackspaces s = Some r"
    by (rule RemoveBackspaces_returns)
next
  show "(indexOf s BS \<noteq> - 1) = (BS \<in> set s)"
    by (rule indexOf_found_iff)
next
  assume "indexOf s BS \<noteq> - 1"
  then have "BS \<in> set s" by (simp add: indexOf_found_iff)
  then show "length (replace_first s) < length s"
    and "count_list (replace_first s) BS < count_list s BS"
    by (rule replace_first_shorter, rule replace_first_count)
next
  assume "indexOf s BS = - 1"
  then have "BS \<notin> set s" using indexOf_found_iff [of s BS] by simp
  then show "replace_first s = s" and "RemoveBackspaces s = Some s"
    by (rule replace_first_clean, rule RemoveBackspaces_clean)
qed

text \<open>
  The theorem at \<^verbatim>\<open>"ab\bc"\<close>, where the loop is entered, and at \<^verbatim>\<open>"ab"\<close>, where it is
  not.
\<close>

theorem RemoveBackspaces_terminates_witness:
  "indexOf [0x61, 0x62, 0x08, 0x63] BS \<noteq> - 1 \<and>
   length (replace_first [0x61, 0x62, 0x08, 0x63]) < length [0x61, 0x62, 0x08, 0x63 :: code_unit] \<and>
   count_list (replace_first [0x61, 0x62, 0x08, 0x63]) BS < count_list [0x61, 0x62, 0x08, 0x63] BS \<and>
   indexOf [0x61, 0x62] BS = - 1 \<and>
   RemoveBackspaces [0x61, 0x62] = Some [0x61, 0x62]"
  using RemoveBackspaces_terminates [of "[0x61, 0x62, 0x08, 0x63]"]
    RemoveBackspaces_terminates [of "[0x61, 0x62]"]
  by (simp add: indexOf_def BS_def)

subsection \<open>The catalog\<close>

text \<open>
  C2. For every descriptor of the catalog named \<^verbatim>\<open>Text\<close> (the witness shows the one), every
  environment and every argument that binds the key \<^verbatim>\<open>text\<close> to a string \<open>v\<close>, the
  generator \<open>char\<close> returns \<open>v\<close> with a backslash before every dollar sign, backquote,
  backslash and exclamation mark and every other code unit unchanged, and the generator
  \<open>preview\<close> returns \<open>v\<close> itself.
\<close>

theorem Text_char_escapes:
  "\<forall>d \<in> set PROMPT_ELEMENT_TYPES. name d = js ''Text'' \<longrightarrow>
     (\<forall>e m v. m (js ''text'') = Some v \<longrightarrow>
        char d e m = Some (escapeText_spec v) \<and> preview d e m = Some v)"
  by (simp add: PROMPT_ELEMENT_TYPES_def name_new char_new preview_new js_def nullish_def
      replace_all_special_eq_spec)

text \<open>
  The theorem at \<^verbatim>\<open>{ text: "$HOME" }\<close>: \<open>char\<close> gives a backslash and \<^verbatim>\<open>$HOME\<close>, the
  preview gives \<^verbatim>\<open>$HOME\<close>.
\<close>

theorem Text_char_escapes_witness:
  "PROMPT_ELEMENT_TYPES ! 46 \<in> set PROMPT_ELEMENT_TYPES \<and>
   name (PROMPT_ELEMENT_TYPES ! 46) = js ''Text'' \<and>
   [js ''text'' \<mapsto> js ''$HOME''] (js ''text'') = Some (js ''$HOME'') \<and>
   char (PROMPT_ELEMENT_TYPES ! 46) (utcEnv 0) [js ''text'' \<mapsto> js ''$HOME''] =
     Some (0x5C # js ''$HOME'') \<and>
   preview (PROMPT_ELEMENT_TYPES ! 46) (utcEnv 0) [js ''text'' \<mapsto> js ''$HOME''] =
     Some (js ''$HOME'')"
proof -
  have mem: "PROMPT_ELEMENT_TYPES ! 46 \<in> set PROMPT_ELEMENT_TYPES"
    by (simp add: catalog_mem)
  have nm: "name (PROMPT_ELEMENT_TYPES ! 46) = js ''Text''"
    by (rule catalog_46)
  have bound: "[js ''text'' \<mapsto> js ''$HOME''] (js ''text'') = Some (js ''$HOME'')"
    by simp
  have esc: "escapeText_spec (js ''$HOME'') = 0x5C # js ''$HOME''"
    by (simp add: escapeText_spec_def js_def)
  from Text_char_escapes mem nm bound
  have "char (PROMPT_ELEMENT_TYPES ! 46) (utcEnv 0) [js ''text'' \<mapsto> js ''$HOME''] =
          Some (escapeText_spec (js ''$HOME'')) \<and>
        preview (PROMPT_ELEMENT_TYPES ! 46) (utcEnv 0) [js ''text'' \<mapsto> js ''$HOME''] =
          Some (js ''$HOME'')"
    by blast
  with mem nm bound esc show ?thesis by simp
qed

text \<open>
  C5, as amended. For every descriptor of the catalog the generator \<open>char\<close> is pure: for
  every argument \<open>m\<close> its result is the same in any two environments (it depends on nothing
  but \<open>m\<close>). The generator \<open>preview\<close> is pure for every descriptor but the four date and time
  descriptors \<^verbatim>\<open>Current Date\<close>, \<^verbatim>\<open>Time with 100th-seconds\<close>, \<^verbatim>\<open>Time\<close> and
  \<^verbatim>\<open>Time (w/o seconds)\<close>, whose previews format the time that \<^verbatim>\<open>new Date()\<close> reads.
\<close>

theorem generators_pure_but_date_time:
  "\<forall>d \<in> set PROMPT_ELEMENT_TYPES.
     (\<forall>e e' m. char d e m = char d e' m) \<and>
     (name d \<notin> date_time_names \<longrightarrow> (\<forall>e e' m. preview d e m = preview d e' m))"
  by (simp add: PROMPT_ELEMENT_TYPES_def name_new char_new preview_new date_time_names_def js_def)

text \<open>The theorem at the descriptor \<^verbatim>\<open>Text\<close>, in two environments one second apart.\<close>

theorem generators_pure_witness:
  "PROMPT_ELEMENT_TYPES ! 46 \<in> set PROMPT_ELEMENT_TYPES \<and>
   name (PROMPT_ELEMENT_TYPES ! 46) \<notin> date_time_names \<and>
   char (PROMPT_ELEMENT_TYPES ! 46) (utcEnv 0) [js ''text'' \<mapsto> js ''$HOME''] =
     char (PROMPT_ELEMENT_TYPES ! 46) (utcEnv 1000) [js ''text'' \<mapsto> js ''$HOME''] \<and>
   preview (PROMPT_ELEMENT_TYPES ! 46) (utcEnv 0) [js ''text'' \<mapsto> js ''$HOME''] =
     preview (PROMPT_ELEMENT_TYPES ! 46) (utcEnv 1000) [js ''text'' \<mapsto> js ''$HOME'']"
proof -
  have mem: "PROMPT_ELEMENT_TYPES ! 46 \<in> set PROMPT_ELEMENT_TYPES"
    by (simp add: catalog_mem)
  have nm: "name (PROMPT_ELEMENT_TYPES ! 46) \<notin> date_time_names"
    unfolding catalog_46 by (simp add: date_time_names_def js_def)
  from generators_pure_but_date_time mem nm show ?thesis by blast
qed

text \<open>
  C5 as it is stated fails for the previews of the date and time descriptors: run at two
  readings of the clock, the previews of \<^verbatim>\<open>Time with 100th-seconds\<close>, \<^verbatim>\<open>Time\<close> and
  \<^verbatim>\<open>Time (w/o seconds)\<close> return different strings for the same (empty) argument.
\<close>

theorem time_previews_read_clock:
  "name (PROMPT_ELEMENT_TYPES ! 2) = js ''Time'' \<and>
   preview (PROMPT_ELEMENT_TYPES ! 2) (utcEnv 0) Map.empty = Some (js '' 0:00:00'') \<and>
   preview (PROMPT_ELEMENT_TYPES ! 2) (utcEnv 1000) Map.empty = Some (js '' 0:00:01'') \<and>
   preview (PROMPT_ELEMENT_TYPES ! 2) (utcEnv 0) Map.empty \<noteq>
     preview (PROMPT_ELEMENT_TYPES ! 2) (utcEnv 1000) Map.empty \<and>
   name (PROMPT_ELEMENT_TYPES ! 1) = js ''Time with 100th-seconds'' \<and>
   preview (PROMPT_ELEMENT_TYPES ! 1) (utcEnv 0) Map.empty = Some (js '' 0:00:00.00'') \<and>
   preview (PROMPT_ELEMENT_TYPES ! 1) (utcEnv 1000) Map.empty = Some (js '' 0:00:01.00'') \<and>
   name (PROMPT_ELEMENT_TYPES ! 3) = js ''Time (w/o seconds)'' \<and>
   preview (PROMPT_ELEMENT_TYPES ! 3) (utcEnv 0) Map.empty = Some (js '' 0:00'') \<and>
   preview (PROMPT_ELEMENT_TYPES ! 3) (utcEnv 60000) Map.empty = Some (js '' 0:01'')"
proof -
  have "utcFormat (js ''%_H:%M:%S'') 0 = js '' 0:00:00''"
    and "utcFormat (js ''%_H:%M:%S'') 1000 = js '' 0:00:01''"
    and "js '' 0:00:00'' \<noteq> js '' 0:00:01''"
    and "RemoveBackspaces (utcFormat (js ''%_H:%M:%S.%L'') 0 @ [0x08]) = Some (js '' 0:00:00.00'')"
    and "RemoveBackspaces (utcFormat (js ''%_H:%M:%S.%L'') 1000 @ [0x08]) =
           Some (js '' 0:00:01.00'')"
    and "utcFormat (js ''%_H:%M'') 0 = js '' 0:00''"
    and "utcFormat (js ''%_H:%M'') 60000 = js '' 0:01''"
    by code_simp+
  then show ?thesis
    unfolding catalog_1 catalog_2 catalog_3 utcEnv_def by simp
qed

text \<open>
  C6. For every descriptor of the catalog named \<^verbatim>\<open>Environment Variable\<close> (the witness
  shows the one), the only declared parameter id is \<^verbatim>\<open>envvar\<close>; in every environment and
  for every argument \<open>m\<close>, \<open>char\<close> returns a percent sign, the value bound to the key
  \<^verbatim>\<open>command\<close> (the empty string when the key is absent) and a percent sign; the result
  does not depend on the value bound to \<^verbatim>\<open>envvar\<close>, and for an argument that binds
  \<^verbatim>\<open>envvar\<close> alone it is \<^verbatim>\<open>%%\<close>.
\<close>

theorem Environment_Variable_char:
  "\<forall>d \<in> set PROMPT_ELEMENT_TYPES. name d = js ''Environment Variable'' \<longrightarrow>
     map id' (PromptElementType.parameters d) = [js ''envvar''] \<and>
     (\<forall>e m. char d e m =
        Some (js ''%'' @ (case m (js ''command'') of None \<Rightarrow> [] | Some v \<Rightarrow> v) @ js ''%'')) \<and>
     (\<forall>e m v. char d e (m(js ''envvar'' \<mapsto> v)) = char d e m) \<and>
     (\<forall>e v. char d e [js ''envvar'' \<mapsto> v] = Some (js ''%%''))"
  by (simp add: PROMPT_ELEMENT_TYPES_def name_new parameters_new char_new js_def nullish_def)

text \<open>
  The theorem at \<^verbatim>\<open>{ envvar: "PATH" }\<close>, where \<open>char\<close> gives \<^verbatim>\<open>%%\<close>, and at
  \<^verbatim>\<open>{ command: "PATH" }\<close>, where it gives \<^verbatim>\<open>%PATH%\<close>.
\<close>

theorem Environment_Variable_char_witness:
  "PROMPT_ELEMENT_TYPES ! 12 \<in> set PROMPT_ELEMENT_TYPES \<and>
   name (PROMPT_ELEMENT_TYPES ! 12) = js ''Environment Variable'' \<and>
   char (PROMPT_ELEMENT_TYPES ! 12) (utcEnv 0) [js ''envvar'' \<mapsto> js ''PATH''] = Some (js ''%%'') \<and>
   char (PROMPT_ELEMENT_TYPES ! 12) (utcEnv 0) [js ''command'' \<mapsto> js ''PATH''] =
     Some (js ''%PATH%'')"
proof -
  have mem: "PROMPT_ELEMENT_TYPES ! 12 \<in> set PROMPT_ELEMENT_TYPES"
    by (simp add: catalog_mem)
  have nm: "name (PROMPT_ELEMENT_TYPES ! 12) = js ''Environment Variable''"
    by (rule catalog_12)
  from Environment_Variable_char mem nm
  have "char (PROMPT_ELEMENT_TYPES ! 12) (utcEnv 0) [js ''envvar'' \<mapsto> js ''PATH''] =
          Some (js ''%%'')"
    and "char (PROMPT_ELEMENT_TYPES ! 12) (utcEnv 0) [js ''command'' \<mapsto> js ''PATH''] =
          Some (js ''%'' @ (case [js ''command'' \<mapsto> js ''PATH''] (js ''command'') of
                            None \<Rightarrow> [] | Some v \<Rightarrow> v) @ js ''%'')"
    by blast+
  with mem nm show ?thesis by (simp add: js_def)
qed

text \<open>
  C7. For every descriptor of the catalog and every environment, \<open>char\<close> and \<open>preview\<close>
  return a string on the empty argument and on every argument \<open>m\<close>, and they return the
  same string on \<open>m\<close> as on \<open>m\<close> with every absent key bound to the empty string. (The
  formatter of d3-time-format is taken to return a string.)
\<close>

theorem generators_total:
  "\<forall>d \<in> set PROMPT_ELEMENT_TYPES.
     (\<exists>s. char d e Map.empty = Some s) \<and> (\<exists>s. preview d e Map.empty = Some s) \<and>
     (\<exists>s. char d e m = Some s) \<and> (\<exists>s. preview d e m = Some s) \<and>
     char d e m = char d e (fill_absent m) \<and> preview d e m = preview d e (fill_absent m)"
  by (simp add: PROMPT_ELEMENT_TYPES_def char_new preview_new nullish_def fill_absent_def
      RemoveBackspaces_returns)

text \<open>
  The theorem at the descriptor \<^verbatim>\<open>Time with 100th-seconds\<close>, whose preview runs the loop of
  \<open>RemoveBackspaces\<close>, on the empty argument.
\<close>

theorem generators_total_witness:
  "PROMPT_ELEMENT_TYPES ! 1 \<in> set PROMPT_ELEMENT_TYPES \<and>
   (\<exists>s. char (PROMPT_ELEMENT_TYPES ! 1) (utcEnv 0) Map.empty = Some s) \<and>
   (\<exists>s. preview (PROMPT_ELEMENT_TYPES ! 1) (utcEnv 0) Map.empty = Some s) \<and>
   preview (PROMPT_ELEMENT_TYPES ! 1) (utcEnv 0) Map.empty =
     preview (PROMPT_ELEMENT_TYPES ! 1) (utcEnv 0) (fill_absent Map.empty)"
proof -
  have mem: "PROMPT_ELEMENT_TYPES ! 1 \<in> set PROMPT_ELEMENT_TYPES"
    by (simp add: catalog_mem)
  from generators_total [of "utcEnv 0" Map.empty] mem show ?thesis by blast
qed

text \<open>
  C9. The names of the descriptors of the catalog are pairwise distinct, every name is
  non-empty, and within each descriptor the ids of its parameters are pairwise distinct.
\<close>

theorem catalog_names_distinct:
  "distinct (map name PROMPT_ELEMENT_TYPES) \<and>
   (\<forall>d \<in> set PROMPT_ELEMENT_TYPES.
      name d \<noteq> [] \<and> distinct (map id' (PromptElementType.parameters d)))"
proof
  show "distinct (map name PROMPT_ELEMENT_TYPES)"
    by (simp add: PROMPT_ELEMENT_TYPES_def name_new js_def)
  show "\<forall>d \<in> set PROMPT_ELEMENT_TYPES.
      name d \<noteq> [] \<and> distinct (map id' (PromptElementType.parameters d))"
    by (simp add: PROMPT_ELEMENT_TYPES_def name_new parameters_new js_def)
qed

text \<open>The theorem at the descriptor \<^verbatim>\<open>Text\<close>, which has a parameter.\<close>

theorem catalog_names_distinct_witness:
  "PROMPT_ELEMENT_TYPES ! 46 \<in> set PROMPT_ELEMENT_TYPES \<and>
   map id' (PromptElementType.parameters (PROMPT_ELEMENT_TYPES ! 46)) = [js ''text''] \<and>
   name (PROMPT_ELEMENT_TYPES ! 46) \<noteq> [] \<and>
   distinct (map id' (PromptElementType.parameters (PROMPT_ELEMENT_TYPES ! 46)))"
proof -
  have mem: "PROMPT_ELEMENT_TYPES ! 46 \<in> set PROMPT_ELEMENT_TYPES"
    by (simp add: catalog_mem)
  have "map id' (PromptElementType.parameters (PROMPT_ELEMENT_TYPES ! 46)) = [js ''text'']"
    by (simp add: PROMPT_ELEMENT_TYPES_def parameters_new)
  with mem catalog_names_distinct [THEN conjunct2, THEN bspec, OF mem] show ?thesis
    by blast
qed

text \<open>
  C10. For every descriptor of the catalog, \<open>printable\<close> is false exactly when its name is
  one of the three names of the space element (the code unit U+23B5), the \<^verbatim>\<open>Newline\<close>
  element and the backspace element (the code unit U+232B); each of the three names is the
  name of a descriptor of the catalog.
\<close>

theorem printable_but_whitespace:
  "(\<forall>d \<in> set PROMPT_ELEMENT_TYPES.
      printable d \<longleftrightarrow> name d \<notin> {[0x23B5], js ''Newline'', [0x232B]}) \<and>
   {[0x23B5], js ''Newline'', [0x232B]} \<subseteq> name ` set PROMPT_ELEMENT_TYPES"
  by (simp add: PROMPT_ELEMENT_TYPES_def name_new printable_new js_def)

text \<open>
  The theorem at the descriptor \<^verbatim>\<open>Newline\<close>, which is not printable, and at the descriptor
  \<^verbatim>\<open>Username\<close>, which is.
\<close>

theorem printable_but_whitespace_witness:
  "PROMPT_ELEMENT_TYPES ! 9 \<in> set PROMPT_ELEMENT_TYPES \<and>
   name (PROMPT_ELEMENT_TYPES ! 9) = js ''Newline'' \<and>
   \<not> printable (PROMPT_ELEMENT_TYPES ! 9) \<and>
   PROMPT_ELEMENT_TYPES ! 4 \<in> set PROMPT_ELEMENT_TYPES \<and>
   name (PROMPT_ELEMENT_TYPES ! 4) = js ''Username'' \<and>
   printable (PROMPT_ELEMENT_TYPES ! 4)"
proof -
  have mem: "PROMPT_ELEMENT_TYPES ! 9 \<in> set PROMPT_ELEMENT_TYPES"
    "PROMPT_ELEMENT_TYPES ! 4 \<in> set PROMPT_ELEMENT_TYPES"
    by (simp_all add: catalog_mem)
  have nm: "name (PROMPT_ELEMENT_TYPES ! 9) = js ''Newline''"
    "name (PROMPT_ELEMENT_TYPES ! 4) = js ''Username''"
    by (rule catalog_9, rule catalog_4)
  have "js ''Username'' \<notin> {[0x23B5], js ''Newline'', [0x232B]}"
    by (simp add: js_def)
  with printable_but_whitespace [THEN conjunct1] mem nm show ?thesis
    by auto
qed

subsection \<open>Prompt elements\<close>

text \<open>
  C8. For every descriptor \<open>d\<close>, the prompt element constructed from \<open>d\<close> has its seven
  display attributes false, \<open>backspaces\<close> equal to 0, no foreground and no background
  color, the empty mapping as its parameters and \<open>d\<close> as its type. The constructor has no
  failing branch.
\<close>

theorem new_PromptElement_defaults:
  "bold (attributes (new_PromptElement d)) = False \<and>
   dim (attributes (new_PromptElement d)) = False \<and>
   italic (attributes (new_PromptElement d)) = False \<and>
   underline (attributes (new_PromptElement d)) = False \<and>
   blink (attributes (new_PromptElement d)) = False \<and>
   reverse (attributes (new_PromptElement d)) = False \<and>
   overline (attributes (new_PromptElement d)) = False \<and>
   backspaces (new_PromptElement d) = 0 \<and>
   foregroundColor (new_PromptElement d) = None \<and>
   backgroundColor (new_PromptElement d) = None \<and>
   PromptElement.parameters (new_PromptElement d) = Map.empty \<and>
   type (new_PromptElement d) = d"
  by (simp add: new_PromptElement_def)

end
